theory Spec2Isabelle
  imports Main
begin

section \<open>Errors and Python values\<close>

text \<open>
  Every exception that the modelled code can raise is a constructor of \<open>error\<close>; a function
  that may raise returns \<open>error + 'a\<close> with \<open>Inl\<close> for the exception.
\<close>

datatype error = KeyError | NotImplementedError | TypeError | IndexError

text \<open>
  A keyword parameter with a default value: \<open>Omitted\<close> when the caller leaves it out,
  \<open>Passed v\<close> when the caller supplies \<open>v\<close>.
\<close>

datatype 'a arg = Omitted | Passed 'a

definition arg_or :: "'a \<Rightarrow> 'a arg \<Rightarrow> 'a" where
  "arg_or dflt a = (case a of Omitted \<Rightarrow> dflt | Passed v \<Rightarrow> v)"

section \<open>The feature-lifting registry\<close>

text \<open>
  \<^verbatim>\<open>FEATURE_LIFTINGS = {"SumLifting": SumLifting, None: IdentityTransform}\<close>.
  The two classes live in other modules of the repository; an instance of either is a
  constructor of \<open>strategy\<close>. Identifiers are strings or Python's \<^verbatim>\<open>None\<close>.
\<close>

datatype strategy = SumLifting | IdentityTransform

definition FEATURE_LIFTINGS :: "string option \<rightharpoonup> strategy" where
  "FEATURE_LIFTINGS =
     [Some ''SumLifting'' \<mapsto> SumLifting, None \<mapsto> IdentityTransform]"

section \<open>Lifting instances and their constructors\<close>

text \<open>
  Constructors are modelled for calls without extra keyword arguments
  (\<^verbatim>\<open>**kwargs\<close> empty), so the call to the base transform's constructor does nothing.
\<close>

record lifting =
  feature_lifting :: strategy

text \<open>
  A graph lifting also stores \<^verbatim>\<open>preserve_edge_attr\<close>. The attribute
  \<^verbatim>\<open>contains_edge_attr\<close> does not exist on a fresh instance (\<open>None\<close>); the graph
  builder below assigns it.
\<close>

record graph_lifting = lifting +
  preserve_edge_attr :: bool
  contains_edge_attr :: "bool option"

definition AbstractLifting_init :: "string option arg \<Rightarrow> error + lifting" where
  "AbstractLifting_init fl =
     (case FEATURE_LIFTINGS (arg_or None fl) of
        None \<Rightarrow> Inl KeyError
      | Some cls \<Rightarrow> Inr \<lparr>feature_lifting = cls\<rparr>)"

definition GraphLifting_init :: "string option arg \<Rightarrow> bool arg \<Rightarrow> error + graph_lifting" where
  "GraphLifting_init fl pea =
     (case AbstractLifting_init (Passed (arg_or (Some ''SumLifting'') fl)) of
        Inl e \<Rightarrow> Inl e
      | Inr base \<Rightarrow>
          Inr \<lparr>feature_lifting = feature_lifting base,
               preserve_edge_attr = arg_or False pea,
               contains_edge_attr = None\<rparr>)"

definition PointCloudLifting_init :: "string option arg \<Rightarrow> error + lifting" where
  "PointCloudLifting_init fl = AbstractLifting_init (Passed (arg_or (Some ''SumLifting'') fl))"

definition CellComplexLifting_init :: "string option arg \<Rightarrow> error + lifting" where
  "CellComplexLifting_init fl = AbstractLifting_init (Passed (arg_or (Some ''SumLifting'') fl))"

definition SimplicialLifting_init :: "string option arg \<Rightarrow> error + lifting" where
  "SimplicialLifting_init fl = AbstractLifting_init (Passed (arg_or (Some ''SumLifting'') fl))"

definition HypergraphLifting_init :: "string option arg \<Rightarrow> error + lifting" where
  "HypergraphLifting_init fl = AbstractLifting_init (Passed (arg_or (Some ''SumLifting'') fl))"

definition CombinatorialLifting_init :: "string option arg \<Rightarrow> error + lifting" where
  "CombinatorialLifting_init fl = AbstractLifting_init (Passed (arg_or (Some ''SumLifting'') fl))"

section \<open>The abstract topology construction\<close>

text \<open>
  Each of the seven classes declares \<^verbatim>\<open>lift_topology\<close> with a body that only raises.
  A topology descriptor is a Python dict with string keys, kept as an association list in
  insertion order.
\<close>

type_synonym 'v dict = "(string \<times> 'v) list"

definition AbstractLifting_lift_topology :: "'v dict \<Rightarrow> error + 'v dict" where
  "AbstractLifting_lift_topology data = Inl NotImplementedError"

definition GraphLifting_lift_topology :: "'v dict \<Rightarrow> error + 'v dict" where
  "GraphLifting_lift_topology data = Inl NotImplementedError"

definition PointCloudLifting_lift_topology :: "'v dict \<Rightarrow> error + 'v dict" where
  "PointCloudLifting_lift_topology data = Inl NotImplementedError"

definition CellComplexLifting_lift_topology :: "'v dict \<Rightarrow> error + 'v dict" where
  "CellComplexLifting_lift_topology data = Inl NotImplementedError"

definition SimplicialLifting_lift_topology :: "'v dict \<Rightarrow> error + 'v dict" where
  "SimplicialLifting_lift_topology data = Inl NotImplementedError"

definition HypergraphLifting_lift_topology :: "'v dict \<Rightarrow> error + 'v dict" where
  "HypergraphLifting_lift_topology data = Inl NotImplementedError"

definition CombinatorialLifting_lift_topology :: "'v dict \<Rightarrow> error + 'v dict" where
  "CombinatorialLifting_lift_topology data = Inl NotImplementedError"

section \<open>The full lifting: \<^verbatim>\<open>forward\<close>\<close>

text \<open>
  A data record is a keyed bag of fields holding tensors; \<^verbatim>\<open>to_dict\<close> returns its
  fields as a plain dict. The record is built by a call with two dict unpackings,
  \<^verbatim>\<open>Data(**initial_data, **lifted_topology)\<close>: Python merges the two into one keyword
  dict before the constructor runs and raises \<^verbatim>\<open>TypeError\<close> (multiple values for a
  keyword argument) when a key occurs in both.
\<close>

definition to_dict :: "'v dict \<Rightarrow> 'v dict" where
  "to_dict data = data"

definition Data_kwargs :: "'v dict \<Rightarrow> 'v dict \<Rightarrow> error + 'v dict" where
  "Data_kwargs kw1 kw2 =
     (if \<exists>k \<in> set (map fst kw1). k \<in> set (map fst kw2) then Inl TypeError
      else Inr (kw1 @ kw2))"

text \<open>
  \<^verbatim>\<open>forward\<close> calls two things that the module does not define: the subclass's
  \<^verbatim>\<open>lift_topology\<close> and the call operation of the strategy object stored at
  construction. Both are parameters (\<open>lift_topology\<close>, and \<open>call\<close> giving the behaviour
  of each strategy object); either may raise.
\<close>

definition forward ::
  "(strategy \<Rightarrow> 'v dict \<Rightarrow> error + 'v dict) \<Rightarrow> ('v dict \<Rightarrow> error + 'v dict) \<Rightarrow>
   ('a lifting_scheme) \<Rightarrow> 'v dict \<Rightarrow> error + 'v dict" where
  "forward call lift_topology self data =
     (let initial_data = to_dict data in
      case lift_topology data of
        Inl e \<Rightarrow> Inl e
      | Inr lifted_topology \<Rightarrow>
          (case call (feature_lifting self) lifted_topology of
             Inl e \<Rightarrow> Inl e
           | Inr lifted_topology' \<Rightarrow> Data_kwargs initial_data lifted_topology'))"

section \<open>Graph data\<close>

text \<open>
  The graph builder reads three fields of the data record: the node-feature matrix
  \<^verbatim>\<open>x\<close> (one row per node), the edge-index tensor \<^verbatim>\<open>edge_index\<close> of shape
  \<open>(2, E)\<close> and the optional edge-attribute matrix \<^verbatim>\<open>edge_attr\<close>. The edge index is
  kept as the list of its \<open>E\<close> columns, so that its two rows have the same length by
  construction; \<open>row0\<close> and \<open>row1\<close> are \<^verbatim>\<open>edge_index[0]\<close> and
  \<^verbatim>\<open>edge_index[1]\<close>. Tensor entries are integers: the claims are about structure, not
  about floating-point arithmetic.
\<close>

type_synonym edge_index = "(nat \<times> nat) list"

definition row0 :: "edge_index \<Rightarrow> nat list" where
  "row0 ei = map fst ei"

definition row1 :: "edge_index \<Rightarrow> nat list" where
  "row1 ei = map snd ei"

record graph_data =
  data_x :: "int list list"
  data_edge_index :: edge_index
  data_edge_attr :: "int list list option"

text \<open>Values stored in the attribute dicts of the graph: an integer, a vector, a matrix.\<close>

datatype pyval = IntV int | Vec "int list" | Mat "int list list"

type_synonym attrs = "string \<rightharpoonup> pyval"

section \<open>The symmetry utilities of the tensor library\<close>

text \<open>
  \<^verbatim>\<open>is_undirected\<close> and \<^verbatim>\<open>to_undirected\<close> are imported from the graph-tensor
  library, not defined in this repository. They are modelled after the library: edges are
  ordered by the key \<open>row * num_nodes + col\<close> with a stable sort, attribute rows are
  permuted along (an index out of range raises), \<^verbatim>\<open>is_undirected\<close> compares the
  row-sorted edge list with its column-sorted transpose, and \<^verbatim>\<open>to_undirected\<close>
  appends the reversed edges with the same attributes and coalesces duplicates by adding
  their attribute rows. The theorems on the graph builder use only that
  \<^verbatim>\<open>to_undirected\<close> returns a pair and which of the two answers
  \<^verbatim>\<open>is_undirected\<close> gives.
\<close>

definition maybe_num_nodes :: "edge_index \<Rightarrow> nat" where
  "maybe_num_nodes ei = (if ei = [] then 0 else fold max (row0 ei @ row1 ei) 0 + 1)"

definition index_sort :: "nat list \<Rightarrow> nat list" where
  "index_sort idx = map snd (sort_key fst (zip idx [0..<length idx]))"

definition index_rows :: "'a list \<Rightarrow> nat list \<Rightarrow> error + 'a list" where
  "index_rows t perm =
     (if list_all (\<lambda>p. p < length t) perm then Inr (map ((!) t) perm) else Inl IndexError)"

definition sort_edge_index ::
  "edge_index \<Rightarrow> int list list \<Rightarrow> bool \<Rightarrow> error + (edge_index \<times> int list list)" where
  "sort_edge_index ei attr sort_by_row =
     (let n = maybe_num_nodes ei;
          idx = map (\<lambda>(r, c). if sort_by_row then r * n + c else c * n + r) ei;
          perm = index_sort idx
      in case index_rows attr perm of
           Inl e \<Rightarrow> Inl e
         | Inr attr' \<Rightarrow> Inr (map ((!) ei) perm, attr'))"

definition is_undirected :: "edge_index \<Rightarrow> int list list \<Rightarrow> error + bool" where
  "is_undirected ei attr =
     (case sort_edge_index ei attr True of
        Inl e \<Rightarrow> Inl e
      | Inr (ei1, attr1) \<Rightarrow>
          (case sort_edge_index ei1 attr1 False of
             Inl e \<Rightarrow> Inl e
           | Inr (ei2, attr2) \<Rightarrow>
               Inr (row0 ei1 = row1 ei2 \<and> row1 ei1 = row0 ei2 \<and> attr1 = attr2)))"

fun scatter_add :: "(nat \<times> (nat \<times> nat) \<times> int list) list \<Rightarrow> ((nat \<times> nat) \<times> int list) list" where
  "scatter_add [] = []"
| "scatter_add [(k, e, a)] = [(e, a)]"
| "scatter_add ((k, e, a) # (k', e', a') # rest) =
     (if k = k' then scatter_add ((k', e, map2 (+) a a') # rest)
      else (e, a) # scatter_add ((k', e', a') # rest))"

definition coalesce :: "edge_index \<Rightarrow> int list list \<Rightarrow> error + (edge_index \<times> int list list)" where
  "coalesce ei attr =
     (let n = maybe_num_nodes ei;
          idx = map (\<lambda>(r, c). r * n + c) ei;
          perm = index_sort idx
      in case index_rows attr perm of
           Inl e \<Rightarrow> Inl e
         | Inr attr' \<Rightarrow>
             (let merged = scatter_add (zip (map ((!) idx) perm) (zip (map ((!) ei) perm) attr'))
              in Inr (map fst merged, map snd merged)))"

definition to_undirected :: "edge_index \<Rightarrow> int list list \<Rightarrow> error + (edge_index \<times> int list list)" where
  "to_undirected ei attr =
     coalesce (zip (row0 ei @ row1 ei) (row1 ei @ row0 ei)) (attr @ attr)"

section \<open>The undirected graph object\<close>

text \<open>
  The graph library's undirected graph: a dict from node to attribute dict, and a symmetric
  adjacency from a pair of nodes to the attribute dict of the edge joining them. Adding a
  node that exists updates its attributes; adding an edge creates missing endpoints with
  empty attributes, updates the attribute dict of the pair with the entry's payload and
  stores it under both directions. A 2-tuple entry has the empty payload.
\<close>

record graph =
  g_node :: "nat \<rightharpoonup> attrs"
  g_adj :: "nat \<Rightarrow> nat \<rightharpoonup> attrs"

datatype edge_entry = Edge2 nat nat | Edge3 nat nat attrs

definition empty_graph :: graph where
  "empty_graph = \<lparr>g_node = Map.empty, g_adj = (\<lambda>u. Map.empty)\<rparr>"

definition get_or_empty :: "attrs option \<Rightarrow> attrs" where
  "get_or_empty r = (case r of None \<Rightarrow> Map.empty | Some a \<Rightarrow> a)"

definition add_node :: "graph \<Rightarrow> nat \<times> attrs \<Rightarrow> graph" where
  "add_node g entry =
     (case entry of (n, ndict) \<Rightarrow>
        g\<lparr>g_node := (g_node g)(n \<mapsto> get_or_empty (g_node g n) ++ ndict)\<rparr>)"

definition add_nodes_from :: "graph \<Rightarrow> (nat \<times> attrs) list \<Rightarrow> graph" where
  "add_nodes_from g nodes = foldl add_node g nodes"

definition ensure_node :: "graph \<Rightarrow> nat \<Rightarrow> graph" where
  "ensure_node g u =
     (if g_node g u = None then g\<lparr>g_node := (g_node g)(u \<mapsto> Map.empty)\<rparr> else g)"

fun entry_src :: "edge_entry \<Rightarrow> nat" where
  "entry_src (Edge2 u v) = u"
| "entry_src (Edge3 u v dd) = u"

fun entry_dst :: "edge_entry \<Rightarrow> nat" where
  "entry_dst (Edge2 u v) = v"
| "entry_dst (Edge3 u v dd) = v"

fun entry_payload :: "edge_entry \<Rightarrow> attrs" where
  "entry_payload (Edge2 u v) = Map.empty"
| "entry_payload (Edge3 u v dd) = dd"

definition add_edge :: "graph \<Rightarrow> edge_entry \<Rightarrow> graph" where
  "add_edge g e =
     (let u = entry_src e; v = entry_dst e; dd = entry_payload e;
          g1 = ensure_node (ensure_node g u) v;
          datadict = get_or_empty (g_adj g1 u v) ++ dd;
          adj1 = (g_adj g1)(u := (g_adj g1 u)(v \<mapsto> datadict));
          adj2 = adj1(v := (adj1 v)(u \<mapsto> datadict))
      in g1\<lparr>g_adj := adj2\<rparr>)"

definition add_edges_from :: "graph \<Rightarrow> edge_entry list \<Rightarrow> graph" where
  "add_edges_from g edges = foldl add_edge g edges"

section \<open>The graph builder\<close>

definition data_has_edge_attr :: "graph_data \<Rightarrow> bool" where
  "data_has_edge_attr d = (data_edge_attr d \<noteq> None)"

text \<open>
  The value bound to the local \<^verbatim>\<open>edge_attr\<close>. The statement is
  \<^verbatim>\<open>edge_index, edge_attr = data.edge_index, data.edge_attr if is_undirected(...) else to_undirected(...)\<close>
  and a conditional expression binds tighter than the comma, so the right-hand side is
  the pair of \<^verbatim>\<open>data.edge_index\<close> and the conditional: \<^verbatim>\<open>edge_index\<close> is always the
  input edge index, and \<^verbatim>\<open>edge_attr\<close> is either the input attribute tensor or the whole
  pair that \<^verbatim>\<open>to_undirected\<close> returns.
\<close>

datatype edge_attr_value = Tensor "int list list" | Tuple edge_index "int list list"

definition as_matrix :: "edge_index \<Rightarrow> int list list" where
  "as_matrix ei = [map int (row0 ei), map int (row1 ei)]"

text \<open>
  \<^verbatim>\<open>edge_attr[edge_idx]\<close>: a row of the tensor, or a component of the pair; an index
  out of range raises \<^verbatim>\<open>IndexError\<close> in both cases.
\<close>

definition getitem :: "edge_attr_value \<Rightarrow> nat \<Rightarrow> error + pyval" where
  "getitem ea k =
     (case ea of
        Tensor rows \<Rightarrow> if k < length rows then Inr (Vec (rows ! k)) else Inl IndexError
      | Tuple ei' attr' \<Rightarrow>
          if k = 0 then Inr (Mat (as_matrix ei'))
          else if k = 1 then Inr (Mat attr')
          else Inl IndexError)"

definition bound_edge_attr :: "graph_data \<Rightarrow> int list list \<Rightarrow> error + edge_attr_value" where
  "bound_edge_attr d attr =
     (case is_undirected (data_edge_index d) attr of
        Inl e \<Rightarrow> Inl e
      | Inr True \<Rightarrow> Inr (Tensor attr)
      | Inr False \<Rightarrow>
          (case to_undirected (data_edge_index d) attr of
             Inl e \<Rightarrow> Inl e
           | Inr (ei', attr') \<Rightarrow> Inr (Tuple ei' attr')))"

text \<open>The attribute dict \<^verbatim>\<open>dict(features=f, dim=n)\<close> of a node or an edge entry.\<close>

definition features_dim :: "pyval \<Rightarrow> int \<Rightarrow> attrs" where
  "features_dim f n = [''features'' \<mapsto> f, ''dim'' \<mapsto> IntV n]"

text \<open>The comprehension over \<^verbatim>\<open>enumerate(zip(edge_index[0], edge_index[1]))\<close>.\<close>

fun attributed_edges :: "edge_attr_value \<Rightarrow> nat \<Rightarrow> (nat \<times> nat) list \<Rightarrow> error + edge_entry list" where
  "attributed_edges ea edge_idx [] = Inr []"
| "attributed_edges ea edge_idx ((i, j) # rest) =
     (case getitem ea edge_idx of
        Inl e \<Rightarrow> Inl e
      | Inr f \<Rightarrow>
          (case attributed_edges ea (Suc edge_idx) rest of
             Inl e \<Rightarrow> Inl e
           | Inr es \<Rightarrow> Inr (Edge3 i j (features_dim f 1) # es)))"

definition node_entries :: "graph_data \<Rightarrow> (nat \<times> attrs) list" where
  "node_entries d =
     map (\<lambda>n. (n, features_dim (Vec (data_x d ! n)) 0)) [0..<length (data_x d)]"

text \<open>
  The local \<^verbatim>\<open>edges\<close> together with the flag that the branch assigns to
  \<^verbatim>\<open>self.contains_edge_attr\<close>. In the first branch the attribute tensor is present
  (the guard has checked it), so reading it with \<open>the\<close> is defined.
\<close>

definition edge_entries :: "bool \<Rightarrow> graph_data \<Rightarrow> error + (edge_entry list \<times> bool)" where
  "edge_entries preserve d =
     (if preserve \<and> data_has_edge_attr d then
        (case bound_edge_attr d (the (data_edge_attr d)) of
           Inl e \<Rightarrow> Inl e
         | Inr edge_attr \<Rightarrow>
             (let edge_index = data_edge_index d in
              case attributed_edges edge_attr 0 (zip (row0 edge_index) (row1 edge_index)) of
                Inl e \<Rightarrow> Inl e
              | Inr edges \<Rightarrow> Inr (edges, True)))
      else
        Inr (map (\<lambda>(i, j). Edge2 i j)
               (zip (row0 (data_edge_index d)) (row1 (data_edge_index d))), False))"

definition generate_graph_from_data ::
  "graph_lifting \<Rightarrow> graph_data \<Rightarrow> (error + graph) \<times> graph_lifting" where
  "generate_graph_from_data self d =
     (let nodes = node_entries d in
      case edge_entries (preserve_edge_attr self) d of
        Inl e \<Rightarrow> (Inl e, self)
      | Inr (edges, flag) \<Rightarrow>
          (let self' = self\<lparr>contains_edge_attr := Some flag\<rparr>;
               graph = empty_graph;
               graph = add_nodes_from graph nodes;
               graph = add_edges_from graph edges
           in (Inr graph, self')))"

text \<open>
  An edge entry joins \<open>u\<close> and \<open>v\<close> when its endpoints are \<open>(u, v)\<close> or \<open>(v, u)\<close>.
\<close>

definition joins :: "edge_entry \<Rightarrow> nat \<Rightarrow> nat \<Rightarrow> bool" where
  "joins e u v = ((entry_src e = u \<and> entry_dst e = v) \<or> (entry_src e = v \<and> entry_dst e = u))"

section \<open>Sample inputs\<close>

text \<open>
  A graph lifting as its constructor returns it, and the inputs of the specification's
  scenarios A, B and C (three nodes; edges listed as the columns of the edge index).
\<close>

abbreviation graph_self :: "bool \<Rightarrow> graph_lifting" where
  "graph_self p \<equiv>
     \<lparr>feature_lifting = SumLifting, preserve_edge_attr = p, contains_edge_attr = None\<rparr>"

abbreviation scenario_A :: graph_data where
  "scenario_A \<equiv>
     \<lparr>data_x = [[1], [2], [3]], data_edge_index = [(0, 1), (1, 2)], data_edge_attr = None\<rparr>"

abbreviation scenario_B :: graph_data where
  "scenario_B \<equiv>
     \<lparr>data_x = [[1], [2], [3]], data_edge_index = [(0, 1), (1, 0)],
      data_edge_attr = Some [[5], [5]]\<rparr>"

abbreviation scenario_C :: graph_data where
  "scenario_C \<equiv>
     \<lparr>data_x = [[1], [2], [3]], data_edge_index = [(0, 1)], data_edge_attr = Some [[9]]\<rparr>"

text \<open>
  Further inputs: an edge list that repeats the pair \<open>(0, 1)\<close> in both directions with
  two different attribute rows, a directed triangle with attributes, and an edge whose
  endpoint \<open>5\<close> is not a row of the two-row feature matrix.
\<close>

abbreviation duplicated_edges :: graph_data where
  "duplicated_edges \<equiv>
     \<lparr>data_x = [[1], [2]], data_edge_index = [(0, 1), (1, 0), (0, 1), (1, 0)],
      data_edge_attr = Some [[5], [5], [7], [7]]\<rparr>"

abbreviation three_directed_edges :: graph_data where
  "three_directed_edges \<equiv>
     \<lparr>data_x = [[1], [2], [3]], data_edge_index = [(0, 1), (1, 2), (2, 0)],
      data_edge_attr = Some [[7], [8], [9]]\<rparr>"

abbreviation edge_to_unknown_node :: graph_data where
  "edge_to_unknown_node \<equiv>
     \<lparr>data_x = [[1], [2]], data_edge_index = [(0, 1), (1, 5)], data_edge_attr = None\<rparr>"

section \<open>Lemmas on the graph object\<close>

lemma g_adj_ensure_node: "g_adj (ensure_node g u) = g_adj g"
  by (simp add: ensure_node_def)

lemma g_node_ensure_node:
  "g_node (ensure_node g u) n = (if n = u \<and> g_node g u = None then Some Map.empty else g_node g n)"
  by (simp add: ensure_node_def)

lemma g_node_add_edge:
  "g_node (add_edge g e) n =
     (if g_node g n = None \<and> (n = entry_src e \<or> n = entry_dst e) then Some Map.empty
      else g_node g n)"
  by (auto simp: add_edge_def Let_def g_node_ensure_node)

lemma g_adj_add_edge:
  "g_adj (add_edge g e) u v =
     (if joins e u v
      then Some (get_or_empty (g_adj g (entry_src e) (entry_dst e)) ++ entry_payload e)
      else g_adj g u v)"
  by (auto simp: add_edge_def Let_def g_adj_ensure_node joins_def)

lemma g_node_add_edges_from:
  "g_node (add_edges_from g es) n =
     (case g_node g n of
        Some a \<Rightarrow> Some a
      | None \<Rightarrow> if n \<in> set (map entry_src es) \<union> set (map entry_dst es) then Some Map.empty
                else None)"
  unfolding add_edges_from_def
proof (induction es arbitrary: g)
  case Nil
  then show ?case by (simp split: option.splits)
next
  case (Cons e es)
  show ?case
    by (simp add: Cons.IH g_node_add_edge split: option.splits)
qed

lemma g_adj_add_node: "g_adj (add_node g entry) = g_adj g"
  by (simp add: add_node_def split: prod.splits)

lemma g_adj_add_nodes_from: "g_adj (add_nodes_from g ns) = g_adj g"
  unfolding add_nodes_from_def
  by (induction ns arbitrary: g) (simp_all add: g_adj_add_node)

lemma g_node_add_node:
  "g_node (add_node g (m, nd)) n =
     (if n = m then Some (get_or_empty (g_node g m) ++ nd) else g_node g n)"
  by (simp add: add_node_def)

lemma g_node_add_nodes_upt:
  "g_node (foldl add_node empty_graph (map (\<lambda>n. (n, f n)) [0..<m])) n =
     (if n < m then Some (f n) else None)"
proof (induction m)
  case 0
  then show ?case by (simp add: empty_graph_def)
next
  case (Suc m)
  then show ?case
    by (auto simp: g_node_add_node get_or_empty_def)
qed

lemma g_node_add_nodes_from_entries:
  "g_node (add_nodes_from empty_graph (node_entries d)) n =
     (if n < length (data_x d)
      then Some (features_dim (Vec (data_x d ! n)) 0)
      else None)"
  unfolding add_nodes_from_def node_entries_def
  by (rule g_node_add_nodes_upt)

lemma dom_features_dim: "dom (features_dim f n) = {''features'', ''dim''}"
  by (auto simp: features_dim_def)

lemma features_dim_at_dim: "features_dim f n ''dim'' = Some (IntV n)"
  by (simp add: features_dim_def)

lemma features_dim_at_features: "features_dim f n ''features'' = Some f"
  by (simp add: features_dim_def)

lemma joins_sym: "joins e u v = joins e v u"
  by (auto simp: joins_def)

lemma g_adj_add_edges_from_sym:
  assumes "\<And>u v. g_adj g u v = g_adj g v u"
  shows "g_adj (add_edges_from g es) u v = g_adj (add_edges_from g es) v u"
  using assms unfolding add_edges_from_def
proof (induction es arbitrary: g)
  case Nil
  then show ?case by simp
next
  case (Cons e es)
  have "\<And>a b. g_adj (add_edge g e) a b = g_adj (add_edge g e) b a"
    using Cons.prems joins_sym by (simp add: g_adj_add_edge)
  then show ?case
    using Cons.IH by simp
qed

lemma map_add_same_dom: "dom a \<subseteq> dom b \<Longrightarrow> a ++ b = b"
  by (rule ext) (auto simp: map_add_def split: option.splits)

lemma get_or_empty_overwritten:
  assumes "\<And>a. r = Some a \<Longrightarrow> dom a = D" and "dom dd = D"
  shows "get_or_empty r ++ dd = dd"
  using assms by (cases r) (simp_all add: get_or_empty_def map_add_same_dom)

lemma g_adj_add_edges_from_last:
  assumes "\<And>e. e \<in> set es \<Longrightarrow> dom (entry_payload e) = D"
      and "\<And>a b x. g_adj g a b = Some x \<Longrightarrow> dom x = D"
  shows "g_adj (add_edges_from g es) u v =
           (if \<exists>e \<in> set es. joins e u v
            then Some (entry_payload (last (filter (\<lambda>e. joins e u v) es)))
            else g_adj g u v)
         \<and> (\<forall>a b x. g_adj (add_edges_from g es) a b = Some x \<longrightarrow> dom x = D)"
  using assms(1) unfolding add_edges_from_def
proof (induction es rule: rev_induct)
  case Nil
  then show ?case using assms(2) by auto
next
  case (snoc e es)
  let ?g = "foldl add_edge g es"
  have ih: "g_adj ?g u v =
           (if \<exists>e \<in> set es. joins e u v
            then Some (entry_payload (last (filter (\<lambda>e. joins e u v) es)))
            else g_adj g u v)"
    and inv: "\<And>a b x. g_adj ?g a b = Some x \<Longrightarrow> dom x = D"
    using snoc.IH snoc.prems by auto
  have pe: "dom (entry_payload e) = D"
    using snoc.prems by simp
  have ow: "get_or_empty (g_adj ?g (entry_src e) (entry_dst e)) ++ entry_payload e = entry_payload e"
    by (rule get_or_empty_overwritten [OF inv pe])
  have step: "\<And>a b. g_adj (add_edge ?g e) a b =
      (if joins e a b then Some (entry_payload e) else g_adj ?g a b)"
    by (simp add: g_adj_add_edge ow)
  have inv': "\<forall>a b x. g_adj (foldl add_edge g (es @ [e])) a b = Some x \<longrightarrow> dom x = D"
  proof (intro allI impI)
    fix a b x
    assume "g_adj (foldl add_edge g (es @ [e])) a b = Some x"
    then have "(if joins e a b then Some (entry_payload e) else g_adj ?g a b) = Some x"
      by (simp add: step)
    then show "dom x = D"
      using inv [of a b x] pe by (cases "joins e a b") auto
  qed
  have "g_adj (foldl add_edge g (es @ [e])) u v =
           (if \<exists>e' \<in> set (es @ [e]). joins e' u v
            then Some (entry_payload (last (filter (\<lambda>e. joins e u v) (es @ [e]))))
            else g_adj g u v)"
    using ih by (simp add: step)
  then show ?case using inv' by blast
qed

lemma attributed_edges_shape:
  "attributed_edges ea k ps = Inr es \<Longrightarrow>
     map entry_src es = map fst ps \<and> map entry_dst es = map snd ps \<and>
     (\<forall>e \<in> set es. \<exists>f. entry_payload e = features_dim f 1)"
proof (induction ps arbitrary: k es)
  case Nil
  then show ?case by simp
next
  case (Cons p ps)
  obtain i j where p: "p = (i, j)" by (cases p)
  from Cons.prems p obtain f es' where
    f: "getitem ea k = Inr f" and
    r: "attributed_edges ea (Suc k) ps = Inr es'" and
    es: "es = Edge3 i j (features_dim f 1) # es'"
    by (auto split: sum.splits)
  from Cons.IH [OF r] show ?case
    by (auto simp: es p)
qed

lemma zip_rows: "zip (row0 ei) (row1 ei) = ei"
  by (simp add: row0_def row1_def zip_map_fst_snd)

lemma edge_entries_endpoints:
  assumes "edge_entries p d = Inr (es, flag)"
  shows "map entry_src es = row0 (data_edge_index d) \<and> map entry_dst es = row1 (data_edge_index d)"
proof (cases "p \<and> data_has_edge_attr d")
  case True
  with assms obtain ea where
    "attributed_edges ea 0 (data_edge_index d) = Inr es"
    by (auto simp: edge_entries_def zip_rows Let_def split: sum.splits)
  from attributed_edges_shape [OF this] show ?thesis
    by (simp add: row0_def row1_def)
next
  case False
  with assms have "es = map (\<lambda>(i, j). Edge2 i j) (data_edge_index d)"
    by (auto simp: edge_entries_def zip_rows)
  then show ?thesis
    by (simp add: row0_def row1_def comp_def case_prod_unfold)
qed

lemma edge_entries_payload_dom:
  assumes "edge_entries p d = Inr (es, flag)" and "e \<in> set es"
  shows "dom (entry_payload e) = (if flag then {''features'', ''dim''} else {})"
    and "flag \<Longrightarrow> entry_payload e ''dim'' = Some (IntV 1)"
    and "\<not> flag \<Longrightarrow> entry_payload e = Map.empty"
    and "flag = (p \<and> data_has_edge_attr d)"
proof -
  show fl: "flag = (p \<and> data_has_edge_attr d)"
    using assms(1) by (auto simp: edge_entries_def Let_def split: sum.splits if_splits)
  have a: "flag \<Longrightarrow> \<exists>f. entry_payload e = features_dim f 1"
  proof -
    assume "flag"
    with assms(1) fl obtain ea where
      "attributed_edges ea 0 (data_edge_index d) = Inr es"
      by (auto simp: edge_entries_def zip_rows Let_def split: sum.splits)
    from attributed_edges_shape [OF this] assms(2) show ?thesis by blast
  qed
  have b: "\<not> flag \<Longrightarrow> entry_payload e = Map.empty"
  proof -
    assume "\<not> flag"
    with assms(1) fl have "es = map (\<lambda>(i, j). Edge2 i j) (data_edge_index d)"
      by (auto simp: edge_entries_def zip_rows)
    with assms(2) show ?thesis by auto
  qed
  show "\<not> flag \<Longrightarrow> entry_payload e = Map.empty" by (rule b)
  show "flag \<Longrightarrow> entry_payload e ''dim'' = Some (IntV 1)"
    using a by (auto simp: features_dim_at_dim)
  show "dom (entry_payload e) = (if flag then {''features'', ''dim''} else {})"
  proof (cases flag)
    case True
    from a [OF True] obtain f where "entry_payload e = features_dim f 1" ..
    with True show ?thesis by (simp only: dom_features_dim if_True)
  next
    case False
    with b show ?thesis by simp
  qed
qed

lemma generate_graph_result:
  "generate_graph_from_data self d = (Inr g, self') \<Longrightarrow>
     \<exists>es flag. edge_entries (preserve_edge_attr self) d = Inr (es, flag) \<and>
       g = add_edges_from (add_nodes_from empty_graph (node_entries d)) es \<and>
       self' = self\<lparr>contains_edge_attr := Some flag\<rparr>"
  by (auto simp: generate_graph_from_data_def Let_def split: sum.splits)

section \<open>Lemmas on the graph builder\<close>

lemma generate_graph_plain:
  "\<not> (preserve_edge_attr self \<and> data_has_edge_attr d) \<Longrightarrow>
     generate_graph_from_data self d =
       (Inr (add_edges_from (add_nodes_from empty_graph (node_entries d))
               (map (\<lambda>(i, j). Edge2 i j) (data_edge_index d))),
        self\<lparr>contains_edge_attr := Some False\<rparr>)"
  by (auto simp: generate_graph_from_data_def edge_entries_def zip_rows)

lemma generate_graph_attributed:
  assumes "preserve_edge_attr self" and "data_edge_attr d = Some attr"
      and "bound_edge_attr d attr = Inr ea"
      and "attributed_edges ea 0 (data_edge_index d) = Inr es"
  shows "generate_graph_from_data self d =
       (Inr (add_edges_from (add_nodes_from empty_graph (node_entries d)) es),
        self\<lparr>contains_edge_attr := Some True\<rparr>)"
  using assms
  by (simp add: generate_graph_from_data_def edge_entries_def zip_rows data_has_edge_attr_def)

lemma g_adj_built_sym:
  "g_adj (add_edges_from (add_nodes_from empty_graph ns) es) u v =
   g_adj (add_edges_from (add_nodes_from empty_graph ns) es) v u"
  by (rule g_adj_add_edges_from_sym) (simp add: g_adj_add_nodes_from empty_graph_def)

lemma g_adj_built_last:
  assumes "\<And>e. e \<in> set es \<Longrightarrow> dom (entry_payload e) = D"
  shows "g_adj (add_edges_from (add_nodes_from empty_graph ns) es) u v =
           (if \<exists>e \<in> set es. joins e u v
            then Some (entry_payload (last (filter (\<lambda>e. joins e u v) es)))
            else None)"
proof -
  let ?g0 = "add_nodes_from empty_graph ns"
  have "g_adj (add_edges_from ?g0 es) u v =
           (if \<exists>e \<in> set es. joins e u v
            then Some (entry_payload (last (filter (\<lambda>e. joins e u v) es)))
            else g_adj ?g0 u v)
         \<and> (\<forall>a b x. g_adj (add_edges_from ?g0 es) a b = Some x \<longrightarrow> dom x = D)"
  proof (rule g_adj_add_edges_from_last [where D = D])
    fix e
    assume "e \<in> set es"
    then show "dom (entry_payload e) = D" by (rule assms)
  next
    fix a b x
    assume "g_adj ?g0 a b = Some x"
    then show "dom x = D"
      by (simp add: g_adj_add_nodes_from empty_graph_def)
  qed
  then show ?thesis
    by (simp add: g_adj_add_nodes_from empty_graph_def)
qed

lemma joins_endpoints:
  assumes "map entry_src es = row0 ei" and "map entry_dst es = row1 ei"
  shows "(\<exists>e \<in> set es. joins e u v) = ((u, v) \<in> set ei \<or> (v, u) \<in> set ei)"
proof -
  have "map (\<lambda>e. (entry_src e, entry_dst e)) es = ei"
    using assms by (simp add: row0_def row1_def list_eq_iff_nth_eq prod_eq_iff)
  then have "set ei = (\<lambda>e. (entry_src e, entry_dst e)) ` set es"
    by (metis set_map)
  then show ?thesis
    by (auto simp: joins_def)
qed

section \<open>The builder on the sample inputs\<close>

lemma is_undirected_C: "is_undirected [(0, 1)] [[9]] = Inr False"
  by code_simp

lemma to_undirected_C: "to_undirected [(0, 1)] [[9]] = Inr ([(0, 1), (1, 0)], [[9], [9]])"
  by code_simp

lemma gen_C:
  "generate_graph_from_data (graph_self True) scenario_C =
     (Inr (add_edges_from (add_nodes_from empty_graph (node_entries scenario_C))
        [Edge3 0 1 (features_dim (Mat [[0, 1], [1, 0]]) 1)]),
      \<lparr>feature_lifting = SumLifting, preserve_edge_attr = True, contains_edge_attr = Some True\<rparr>)"
proof -
  have b: "bound_edge_attr scenario_C [[9]] = Inr (Tuple [(0, 1), (1, 0)] [[9], [9]])"
    using is_undirected_C to_undirected_C by (simp add: bound_edge_attr_def)
  have e: "attributed_edges (Tuple [(0, 1), (1, 0)] [[9], [9]]) 0 (data_edge_index scenario_C) =
     Inr [Edge3 0 1 (features_dim (Mat [[0, 1], [1, 0]]) 1)]"
    by (simp add: getitem_def as_matrix_def row0_def row1_def)
  show ?thesis
    using generate_graph_attributed [of "graph_self True" scenario_C "[[9]]", OF _ _ b e]
    by simp
qed

lemma is_undirected_3: "is_undirected [(0, 1), (1, 2), (2, 0)] [[7], [8], [9]] = Inr False"
  by code_simp

lemma to_undirected_3:
  "to_undirected [(0, 1), (1, 2), (2, 0)] [[7], [8], [9]] =
     Inr ([(0, 1), (0, 2), (1, 0), (1, 2), (2, 0), (2, 1)], [[7], [9], [7], [8], [9], [8]])"
  by code_simp

lemma gen_3:
  "generate_graph_from_data (graph_self True) three_directed_edges =
     (Inl IndexError, graph_self True)"
proof -
  have b: "bound_edge_attr three_directed_edges [[7], [8], [9]] =
      Inr (Tuple [(0, 1), (0, 2), (1, 0), (1, 2), (2, 0), (2, 1)] [[7], [9], [7], [8], [9], [8]])"
    using is_undirected_3 to_undirected_3 by (simp add: bound_edge_attr_def)
  show ?thesis
    using b
    by (simp add: generate_graph_from_data_def edge_entries_def data_has_edge_attr_def zip_rows
        getitem_def)
qed

lemma gen_A:
  "generate_graph_from_data (graph_self False) scenario_A =
     (Inr (add_edges_from (add_nodes_from empty_graph (node_entries scenario_A))
        [Edge2 0 1, Edge2 1 2]),
      \<lparr>feature_lifting = SumLifting, preserve_edge_attr = False, contains_edge_attr = Some False\<rparr>)"
  using generate_graph_plain [of "graph_self False" scenario_A] by simp

lemma is_undirected_B: "is_undirected [(0, 1), (1, 0)] [[5], [5]] = Inr True"
  by code_simp

lemma gen_B:
  "generate_graph_from_data (graph_self True) scenario_B =
     (Inr (add_edges_from (add_nodes_from empty_graph (node_entries scenario_B))
        [Edge3 0 1 (features_dim (Vec [5]) 1), Edge3 1 0 (features_dim (Vec [5]) 1)]),
      \<lparr>feature_lifting = SumLifting, preserve_edge_attr = True, contains_edge_attr = Some True\<rparr>)"
proof -
  have b: "bound_edge_attr scenario_B [[5], [5]] = Inr (Tensor [[5], [5]])"
    using is_undirected_B by (simp add: bound_edge_attr_def)
  have e: "attributed_edges (Tensor [[5], [5]]) 0 (data_edge_index scenario_B) =
     Inr [Edge3 0 1 (features_dim (Vec [5]) 1), Edge3 1 0 (features_dim (Vec [5]) 1)]"
    by (simp add: getitem_def)
  show ?thesis
    using generate_graph_attributed [of "graph_self True" scenario_B "[[5], [5]]", OF _ _ b e]
    by simp
qed

lemma is_undirected_dup:
  "is_undirected [(0, 1), (1, 0), (0, 1), (1, 0)] [[5], [5], [7], [7]] = Inr True"
  by code_simp

lemma edge_entries_dup:
  "edge_entries True duplicated_edges =
     Inr ([Edge3 0 1 (features_dim (Vec [5]) 1), Edge3 1 0 (features_dim (Vec [5]) 1),
           Edge3 0 1 (features_dim (Vec [7]) 1), Edge3 1 0 (features_dim (Vec [7]) 1)], True)"
proof -
  have b: "bound_edge_attr duplicated_edges [[5], [5], [7], [7]] = Inr (Tensor [[5], [5], [7], [7]])"
    using is_undirected_dup by (simp add: bound_edge_attr_def)
  show ?thesis
    using b by (simp add: edge_entries_def data_has_edge_attr_def zip_rows getitem_def)
qed

lemma g_node_unknown:
  "g_node (projr (fst (generate_graph_from_data (graph_self False) edge_to_unknown_node))) 5 =
     Some Map.empty"
  using generate_graph_plain [of "graph_self False" edge_to_unknown_node]
  by (simp add: g_node_add_edges_from g_node_add_nodes_from_entries)

section \<open>The claims\<close>

text \<open>
  C1 (the code departs from the claim). Scenario C: the single edge \<open>(0, 1)\<close> with
  attribute \<open>[9]\<close> and \<open>preserve_edge_attr = True\<close>. The builder returns a graph in which
  the edge between \<open>1\<close> and \<open>0\<close> carries as \<open>features\<close> the symmetrised edge-index tensor
  \<open>[[0, 1], [1, 0]]\<close>, the first component of the pair returned by
  \<^verbatim>\<open>to_undirected\<close>, and not the attribute \<open>[9]\<close>. On a directed triangle with
  attributes the builder raises \<open>IndexError\<close>, since the pair has no third component.
\<close>

theorem asymmetric_input_misbinds_edge_attr:
  "\<not> isl (fst (generate_graph_from_data (graph_self True) scenario_C)) \<and>
   g_adj (projr (fst (generate_graph_from_data (graph_self True) scenario_C))) 1 0 =
     Some (features_dim (Mat [[0, 1], [1, 0]]) 1) \<and>
   features_dim (Mat [[0, 1], [1, 0]]) 1 ''features'' \<noteq> Some (Vec [9]) \<and>
   fst (generate_graph_from_data (graph_self True) three_directed_edges) = Inl IndexError"
  using gen_C gen_3
  by (simp add: add_edges_from_def g_adj_add_edge joins_def features_dim_at_features
      get_or_empty_def g_adj_add_nodes_from empty_graph_def)

text \<open>
  Counterexample to C2 as stated. The input record has the fields \<open>x\<close> and
  \<open>edge_index\<close>, the descriptor has the keys \<open>x\<close> and \<open>x_0\<close>, and the strategy passes
  the descriptor through. The call that builds the record raises \<open>TypeError\<close>: there is no
  output in which the descriptor's \<open>x\<close> could appear.
\<close>

theorem forward_key_collision_raises:
  "forward (\<lambda>s t. Inr t) (\<lambda>d. Inr [(''x'', 7), (''x_0'', 1)])
     \<lparr>feature_lifting = IdentityTransform\<rparr> [(''x'', 1::int), (''edge_index'', 2)]
   = Inl TypeError"
  by (simp add: forward_def to_dict_def Data_kwargs_def)

text \<open>
  C2 (amended). When the topology construction and the strategy both return, \<open>forward\<close>
  returns a new record holding every field of the input snapshot followed by every entry
  of the enriched descriptor if the two have no key in common (a lookup of a descriptor
  key gives the descriptor's value, any other lookup gives the input's); if they share a
  key, the call fails with \<open>TypeError\<close> and no record is returned.
\<close>

theorem forward_union_or_type_error:
  assumes "lift_topology data = Inr t" and "call (feature_lifting self) t = Inr t'"
  shows "(set (map fst data) \<inter> set (map fst t') = {} \<longrightarrow>
            forward call lift_topology self data = Inr (data @ t') \<and>
            (\<forall>k. map_of (data @ t') k =
                   (if k \<in> set (map fst t') then map_of t' k else map_of data k))) \<and>
         (set (map fst data) \<inter> set (map fst t') \<noteq> {} \<longrightarrow>
            forward call lift_topology self data = Inl TypeError)"
proof (intro conjI impI allI)
  assume dj: "set (map fst data) \<inter> set (map fst t') = {}"
  then show "forward call lift_topology self data = Inr (data @ t')"
    using assms by (auto simp: forward_def to_dict_def Data_kwargs_def)
  fix k
  show "map_of (data @ t') k = (if k \<in> set (map fst t') then map_of t' k else map_of data k)"
  proof (cases "k \<in> set (map fst t')")
    case True
    with dj have "k \<notin> set (map fst data)" by auto
    then have "map_of data k = None" by (simp add: map_of_eq_None_iff)
    with True show ?thesis by (simp add: map_add_def)
  next
    case False
    then have "map_of t' k = None" by (simp add: map_of_eq_None_iff)
    with False show ?thesis by (simp add: map_add_def split: option.splits)
  qed
next
  assume "set (map fst data) \<inter> set (map fst t') \<noteq> {}"
  then show "forward call lift_topology self data = Inl TypeError"
    using assms by (auto simp: forward_def to_dict_def Data_kwargs_def)
qed

text \<open>Both cases of C2 (amended) at concrete inputs.\<close>

theorem forward_union_or_type_error_witness:
  "forward (\<lambda>s t. Inr t) (\<lambda>d. Inr [(''x_0'', 1)])
     \<lparr>feature_lifting = IdentityTransform\<rparr> [(''x'', 1::int), (''edge_index'', 2)]
     = Inr [(''x'', 1), (''edge_index'', 2), (''x_0'', 1)] \<and>
   forward (\<lambda>s t. Inr (t @ [(''x'', 3)])) (\<lambda>d. Inr [(''x_0'', 1)])
     \<lparr>feature_lifting = SumLifting\<rparr> [(''x'', 1::int), (''edge_index'', 2)]
     = Inl TypeError"
  using forward_union_or_type_error [of "\<lambda>d. Inr [(''x_0'', 1)]"
      "[(''x'', 1::int), (''edge_index'', 2)]" "[(''x_0'', 1)]" "\<lambda>s t. Inr t"
      "\<lparr>feature_lifting = IdentityTransform\<rparr>" "[(''x_0'', 1)]"]
    forward_union_or_type_error [of "\<lambda>d. Inr [(''x_0'', 1)]"
      "[(''x'', 1::int), (''edge_index'', 2)]" "[(''x_0'', 1)]" "\<lambda>s t. Inr (t @ [(''x'', 3)])"
      "\<lparr>feature_lifting = SumLifting\<rparr>" "[(''x_0'', 1), (''x'', 3)]"]
  by simp

text \<open>
  C3. Whenever \<open>forward\<close> returns a record, every field of the input record is present
  in it with the same value. (A descriptor entry of the same name never replaces it: such
  a call does not return, see C2.)
\<close>

theorem forward_preserves_fields:
  assumes "forward call lift_topology self data = Inr out" and "map_of data k = Some v"
  shows "map_of out k = Some v"
proof -
  from assms(1) obtain t' where "Data_kwargs (to_dict data) t' = Inr out"
    by (auto simp: forward_def Let_def split: sum.splits)
  then have "out = data @ t'"
    by (auto simp: Data_kwargs_def to_dict_def split: if_splits)
  with assms(2) show ?thesis
    by (simp add: map_add_def)
qed

text \<open>C3 at a concrete input: the call returns, and \<open>edge_index\<close> keeps its value.\<close>

theorem forward_preserves_fields_witness:
  "forward (\<lambda>s t. Inr t) (\<lambda>d. Inr [(''x_0'', 1)])
     \<lparr>feature_lifting = IdentityTransform\<rparr> [(''x'', 1::int), (''edge_index'', 2)]
     = Inr [(''x'', 1), (''edge_index'', 2), (''x_0'', 1)] \<and>
   map_of [(''x'', 1::int), (''edge_index'', 2)] ''edge_index'' = Some 2 \<and>
   map_of [(''x'', 1::int), (''edge_index'', 2), (''x_0'', 1)] ''edge_index'' = Some 2"
proof -
  have r: "forward (\<lambda>s t. Inr t) (\<lambda>d. Inr [(''x_0'', 1)])
     \<lparr>feature_lifting = IdentityTransform\<rparr> [(''x'', 1::int), (''edge_index'', 2)]
     = Inr [(''x'', 1), (''edge_index'', 2), (''x_0'', 1)]"
    by (simp add: forward_def to_dict_def Data_kwargs_def)
  have f: "map_of [(''x'', 1::int), (''edge_index'', 2)] ''edge_index'' = Some 2"
    by simp
  from forward_preserves_fields [OF r f] r f show ?thesis by blast
qed




text \<open>
  C5. Constructing any of the seven liftings with an identifier that is not a key of the
  registry (neither \<open>None\<close> nor \<open>''SumLifting''\<close>) fails with \<open>KeyError\<close>; no instance
  exists on which \<open>forward\<close> could be called. With a key of the registry, construction
  returns an instance that stores the strategy registered under that key, which is the
  strategy \<open>forward\<close> applies.
\<close>

theorem construction_fails_fast:
  "(fl \<notin> {None, Some ''SumLifting''} \<longrightarrow>
      AbstractLifting_init (Passed fl) = Inl KeyError \<and>
      GraphLifting_init (Passed fl) pea = Inl KeyError \<and>
      PointCloudLifting_init (Passed fl) = Inl KeyError \<and>
      CellComplexLifting_init (Passed fl) = Inl KeyError \<and>
      SimplicialLifting_init (Passed fl) = Inl KeyError \<and>
      HypergraphLifting_init (Passed fl) = Inl KeyError \<and>
      CombinatorialLifting_init (Passed fl) = Inl KeyError) \<and>
   (fl \<in> {None, Some ''SumLifting''} \<longrightarrow>
      (\<exists>cls. FEATURE_LIFTINGS fl = Some cls \<and>
         AbstractLifting_init (Passed fl) = Inr \<lparr>feature_lifting = cls\<rparr> \<and>
         GraphLifting_init (Passed fl) pea =
           Inr \<lparr>feature_lifting = cls, preserve_edge_attr = arg_or False pea,
                contains_edge_attr = None\<rparr> \<and>
         PointCloudLifting_init (Passed fl) = Inr \<lparr>feature_lifting = cls\<rparr> \<and>
         CellComplexLifting_init (Passed fl) = Inr \<lparr>feature_lifting = cls\<rparr> \<and>
         SimplicialLifting_init (Passed fl) = Inr \<lparr>feature_lifting = cls\<rparr> \<and>
         HypergraphLifting_init (Passed fl) = Inr \<lparr>feature_lifting = cls\<rparr> \<and>
         CombinatorialLifting_init (Passed fl) = Inr \<lparr>feature_lifting = cls\<rparr>))"
proof (intro conjI impI)
  assume "fl \<in> {None, Some ''SumLifting''}"
  then show "\<exists>cls. FEATURE_LIFTINGS fl = Some cls \<and>
         AbstractLifting_init (Passed fl) = Inr \<lparr>feature_lifting = cls\<rparr> \<and>
         GraphLifting_init (Passed fl) pea =
           Inr \<lparr>feature_lifting = cls, preserve_edge_attr = arg_or False pea,
                contains_edge_attr = None\<rparr> \<and>
         PointCloudLifting_init (Passed fl) = Inr \<lparr>feature_lifting = cls\<rparr> \<and>
         CellComplexLifting_init (Passed fl) = Inr \<lparr>feature_lifting = cls\<rparr> \<and>
         SimplicialLifting_init (Passed fl) = Inr \<lparr>feature_lifting = cls\<rparr> \<and>
         HypergraphLifting_init (Passed fl) = Inr \<lparr>feature_lifting = cls\<rparr> \<and>
         CombinatorialLifting_init (Passed fl) = Inr \<lparr>feature_lifting = cls\<rparr>"
    by (auto simp: FEATURE_LIFTINGS_def AbstractLifting_init_def GraphLifting_init_def
        PointCloudLifting_init_def CellComplexLifting_init_def SimplicialLifting_init_def
        HypergraphLifting_init_def CombinatorialLifting_init_def arg_or_def)
qed (auto simp: FEATURE_LIFTINGS_def AbstractLifting_init_def GraphLifting_init_def
        PointCloudLifting_init_def CellComplexLifting_init_def SimplicialLifting_init_def
        HypergraphLifting_init_def CombinatorialLifting_init_def arg_or_def)

text \<open>C5 at the identifier \<open>''Bogus''\<close> (scenario D) and at the two registered keys.\<close>

theorem construction_fails_fast_witness:
  "AbstractLifting_init (Passed (Some ''Bogus'')) = Inl KeyError \<and>
   GraphLifting_init (Passed (Some ''Bogus'')) Omitted = Inl KeyError \<and>
   AbstractLifting_init (Passed (Some ''SumLifting'')) = Inr \<lparr>feature_lifting = SumLifting\<rparr> \<and>
   AbstractLifting_init (Passed None) = Inr \<lparr>feature_lifting = IdentityTransform\<rparr>"
  using construction_fails_fast [of "Some ''Bogus''" Omitted]
    construction_fails_fast [of "Some ''SumLifting''" Omitted]
    construction_fails_fast [of None Omitted]
  by (simp add: FEATURE_LIFTINGS_def)

text \<open>
  Counterexample to C6 as stated. Scenario A with \<open>preserve_edge_attr = False\<close>: the
  builder returns a graph whose edge between \<open>0\<close> and \<open>1\<close> has the empty attribute dict,
  so it carries no \<open>dim\<close> tag. And a node that only occurs as an edge endpoint (node \<open>5\<close>
  with a two-row feature matrix) has the empty attribute dict as well.
\<close>

theorem plain_edges_carry_no_dim:
  "\<not> isl (fst (generate_graph_from_data (graph_self False) scenario_A)) \<and>
   g_adj (projr (fst (generate_graph_from_data (graph_self False) scenario_A))) 0 1 =
     Some Map.empty \<and>
   g_node (projr (fst (generate_graph_from_data (graph_self False) edge_to_unknown_node))) 5 =
     Some Map.empty"
  using gen_A g_node_unknown
  by (simp add: add_edges_from_def g_adj_add_edge joins_def
      get_or_empty_def g_adj_add_nodes_from empty_graph_def)

text \<open>
  C6 (amended). In every graph the builder returns, every node that is a row of the
  feature matrix carries \<open>dim = 0\<close>; when \<open>preserve_edge_attr\<close> is set and edge attributes
  are present every edge carries \<open>dim = 1\<close>; otherwise every edge has the empty attribute
  dict.
\<close>

theorem dimension_tags:
  assumes "generate_graph_from_data self d = (Inr g, self')"
  shows "(\<forall>n < length (data_x d). \<exists>a. g_node g n = Some a \<and> a ''dim'' = Some (IntV 0)) \<and>
     (preserve_edge_attr self \<and> data_has_edge_attr d \<longrightarrow>
        (\<forall>u v a. g_adj g u v = Some a \<longrightarrow> a ''dim'' = Some (IntV 1))) \<and>
     (\<not> (preserve_edge_attr self \<and> data_has_edge_attr d) \<longrightarrow>
        (\<forall>u v a. g_adj g u v = Some a \<longrightarrow> a = Map.empty))"
proof -
  from generate_graph_result [OF assms] obtain es flag where
    ee: "edge_entries (preserve_edge_attr self) d = Inr (es, flag)" and
    g: "g = add_edges_from (add_nodes_from empty_graph (node_entries d)) es"
    by blast
  have fl: "flag = (preserve_edge_attr self \<and> data_has_edge_attr d)"
    using ee by (auto simp: edge_entries_def Let_def split: sum.splits if_splits)
  have dm: "\<And>e. e \<in> set es \<Longrightarrow>
      dom (entry_payload e) = (if flag then {''features'', ''dim''} else {})"
    by (rule edge_entries_payload_dom(1) [OF ee])
  have last: "\<And>u v. g_adj g u v =
        (if \<exists>e \<in> set es. joins e u v
         then Some (entry_payload (last (filter (\<lambda>e. joins e u v) es)))
         else None)"
    unfolding g by (rule g_adj_built_last [OF dm])
  have mem: "\<And>u v a. g_adj g u v = Some a \<Longrightarrow> \<exists>e \<in> set es. a = entry_payload e"
  proof -
    fix u v a
    assume a: "g_adj g u v = Some a"
    then have ex: "\<exists>e \<in> set es. joins e u v"
      by (simp add: last split: if_splits)
    then have ne: "filter (\<lambda>e. joins e u v) es \<noteq> []"
      by (simp add: filter_empty_conv)
    have "last (filter (\<lambda>e. joins e u v) es) \<in> set (filter (\<lambda>e. joins e u v) es)"
      by (rule last_in_set [OF ne])
    then have "last (filter (\<lambda>e. joins e u v) es) \<in> set es" by simp
    moreover have "a = entry_payload (last (filter (\<lambda>e. joins e u v) es))"
      using a ex by (simp add: last)
    ultimately show "\<exists>e \<in> set es. a = entry_payload e" by blast
  qed
  have nodes: "\<forall>n < length (data_x d). \<exists>a. g_node g n = Some a \<and> a ''dim'' = Some (IntV 0)"
    by (simp add: g g_node_add_edges_from g_node_add_nodes_from_entries features_dim_at_dim)
  have tagged: "preserve_edge_attr self \<and> data_has_edge_attr d \<longrightarrow>
        (\<forall>u v a. g_adj g u v = Some a \<longrightarrow> a ''dim'' = Some (IntV 1))"
    using mem edge_entries_payload_dom(2) [OF ee] fl by blast
  have plain: "\<not> (preserve_edge_attr self \<and> data_has_edge_attr d) \<longrightarrow>
        (\<forall>u v a. g_adj g u v = Some a \<longrightarrow> a = Map.empty)"
    using mem edge_entries_payload_dom(3) [OF ee] fl by blast
  show ?thesis
    using nodes tagged plain by blast
qed

text \<open>
  C6 (amended) on scenario B with attributes preserved (node \<open>2\<close> has \<open>dim = 0\<close>, the
  edge has \<open>dim = 1\<close>) and on scenario A without (the edge has the empty attribute dict).
\<close>

theorem dimension_tags_witness:
  "(\<exists>g self'. generate_graph_from_data (graph_self True) scenario_B = (Inr g, self') \<and>
      (\<exists>a. g_node g 2 = Some a \<and> a ''dim'' = Some (IntV 0)) \<and>
      (\<exists>a. g_adj g 1 0 = Some a \<and> a ''dim'' = Some (IntV 1))) \<and>
   (\<exists>g self'. generate_graph_from_data (graph_self False) scenario_A = (Inr g, self') \<and>
      g_adj g 0 1 = Some Map.empty)"
proof -
  obtain g s where h: "generate_graph_from_data (graph_self True) scenario_B = (Inr g, s)"
    using gen_B by blast
  have "g_adj g 1 0 \<noteq> None"
    using h gen_B
    by (auto simp: add_edges_from_def g_adj_add_edge joins_def)
  then obtain a where a: "g_adj g 1 0 = Some a" by blast
  from dimension_tags [OF h] a h
  have b: "\<exists>g self'. generate_graph_from_data (graph_self True) scenario_B = (Inr g, self') \<and>
      (\<exists>a. g_node g 2 = Some a \<and> a ''dim'' = Some (IntV 0)) \<and>
      (\<exists>a. g_adj g 1 0 = Some a \<and> a ''dim'' = Some (IntV 1))"
    by (simp add: data_has_edge_attr_def)
  obtain g' s' where h': "generate_graph_from_data (graph_self False) scenario_A = (Inr g', s')"
    using gen_A by blast
  have "g_adj g' 0 1 \<noteq> None"
    using h' gen_A
    by (auto simp: add_edges_from_def g_adj_add_edge joins_def)
  then obtain a' where a': "g_adj g' 0 1 = Some a'" by blast
  from dimension_tags [OF h'] a' have "a' = Map.empty"
    by simp
  with a' h' have "\<exists>g self'. generate_graph_from_data (graph_self False) scenario_A = (Inr g, self') \<and>
      g_adj g 0 1 = Some Map.empty"
    by blast
  with b show ?thesis by blast
qed

text \<open>
  C7. In each of the seven classes the declared \<open>lift_topology\<close> fails with
  \<open>NotImplementedError\<close> on every input, and so does \<open>forward\<close> when it runs with that
  \<open>lift_topology\<close>, whatever the instance and the strategy.
\<close>

theorem lift_topology_not_implemented:
  "AbstractLifting_lift_topology d = Inl NotImplementedError \<and>
   GraphLifting_lift_topology d = Inl NotImplementedError \<and>
   PointCloudLifting_lift_topology d = Inl NotImplementedError \<and>
   CellComplexLifting_lift_topology d = Inl NotImplementedError \<and>
   SimplicialLifting_lift_topology d = Inl NotImplementedError \<and>
   HypergraphLifting_lift_topology d = Inl NotImplementedError \<and>
   CombinatorialLifting_lift_topology d = Inl NotImplementedError \<and>
   forward call AbstractLifting_lift_topology self d = Inl NotImplementedError \<and>
   forward call GraphLifting_lift_topology self d = Inl NotImplementedError \<and>
   forward call PointCloudLifting_lift_topology self d = Inl NotImplementedError \<and>
   forward call CellComplexLifting_lift_topology self d = Inl NotImplementedError \<and>
   forward call SimplicialLifting_lift_topology self d = Inl NotImplementedError \<and>
   forward call HypergraphLifting_lift_topology self d = Inl NotImplementedError \<and>
   forward call CombinatorialLifting_lift_topology self d = Inl NotImplementedError"
  by (simp add: forward_def AbstractLifting_lift_topology_def GraphLifting_lift_topology_def
      PointCloudLifting_lift_topology_def CellComplexLifting_lift_topology_def
      SimplicialLifting_lift_topology_def HypergraphLifting_lift_topology_def
      CombinatorialLifting_lift_topology_def)

text \<open>
  C8. Constructed without a \<open>feature_lifting\<close> argument, the base lifting takes the
  identity strategy, registered under \<open>None\<close>; the graph, point-cloud, simplicial,
  cell-complex, hypergraph and combinatorial liftings take the sum strategy.
\<close>

theorem default_strategies:
  "AbstractLifting_init Omitted = Inr \<lparr>feature_lifting = IdentityTransform\<rparr> \<and>
   FEATURE_LIFTINGS None = Some IdentityTransform \<and>
   FEATURE_LIFTINGS (Some ''SumLifting'') = Some SumLifting \<and>
   GraphLifting_init Omitted pea =
     Inr \<lparr>feature_lifting = SumLifting, preserve_edge_attr = arg_or False pea,
          contains_edge_attr = None\<rparr> \<and>
   PointCloudLifting_init Omitted = Inr \<lparr>feature_lifting = SumLifting\<rparr> \<and>
   SimplicialLifting_init Omitted = Inr \<lparr>feature_lifting = SumLifting\<rparr> \<and>
   CellComplexLifting_init Omitted = Inr \<lparr>feature_lifting = SumLifting\<rparr> \<and>
   HypergraphLifting_init Omitted = Inr \<lparr>feature_lifting = SumLifting\<rparr> \<and>
   CombinatorialLifting_init Omitted = Inr \<lparr>feature_lifting = SumLifting\<rparr>"
  by (simp add: FEATURE_LIFTINGS_def AbstractLifting_init_def GraphLifting_init_def
        PointCloudLifting_init_def CellComplexLifting_init_def SimplicialLifting_init_def
        HypergraphLifting_init_def CombinatorialLifting_init_def arg_or_def)

text \<open>
  C9. In every graph the builder returns, the adjacency is symmetric and holds at most
  one attribute dict for a pair of nodes; the pairs that are joined are exactly those that
  occur in the edge index in either direction, however often; and the attribute dict of a
  joined pair is the payload of the last edge entry, in list order, that joins the pair.
\<close>

theorem edges_collapse_last_payload_wins:
  assumes "generate_graph_from_data self d = (Inr g, self')"
  shows "\<exists>es flag. edge_entries (preserve_edge_attr self) d = Inr (es, flag) \<and>
     map entry_src es = row0 (data_edge_index d) \<and>
     map entry_dst es = row1 (data_edge_index d) \<and>
     (\<forall>u v. g_adj g u v = g_adj g v u) \<and>
     (\<forall>u v. (g_adj g u v \<noteq> None) =
        ((u, v) \<in> set (data_edge_index d) \<or> (v, u) \<in> set (data_edge_index d))) \<and>
     (\<forall>u v. g_adj g u v =
        (if \<exists>e \<in> set es. joins e u v
         then Some (entry_payload (last (filter (\<lambda>e. joins e u v) es)))
         else None))"
proof -
  from generate_graph_result [OF assms] obtain es flag where
    ee: "edge_entries (preserve_edge_attr self) d = Inr (es, flag)" and
    g: "g = add_edges_from (add_nodes_from empty_graph (node_entries d)) es"
    by blast
  note ends = edge_entries_endpoints [OF ee]
  have dm: "\<And>e. e \<in> set es \<Longrightarrow>
      dom (entry_payload e) = (if flag then {''features'', ''dim''} else {})"
    by (rule edge_entries_payload_dom(1) [OF ee])
  have last: "\<And>u v. g_adj g u v =
        (if \<exists>e \<in> set es. joins e u v
         then Some (entry_payload (last (filter (\<lambda>e. joins e u v) es)))
         else None)"
    unfolding g by (rule g_adj_built_last [OF dm])
  have sym: "\<And>u v. g_adj g u v = g_adj g v u"
    unfolding g by (rule g_adj_built_sym)
  have pres: "\<And>u v. (g_adj g u v \<noteq> None) =
        ((u, v) \<in> set (data_edge_index d) \<or> (v, u) \<in> set (data_edge_index d))"
    using joins_endpoints [OF ends [THEN conjunct1] ends [THEN conjunct2]]
    by (simp add: last)
  show ?thesis
    using ee ends sym pres last by blast
qed

text \<open>
  C9 on an edge list with \<open>(0, 1)\<close> and \<open>(1, 0)\<close> twice each, attributes \<open>[5]\<close> first and
  \<open>[7]\<close> later: one edge between \<open>0\<close> and \<open>1\<close>, with the later attribute.
\<close>

theorem edges_collapse_last_payload_wins_witness:
  "\<exists>g self'. generate_graph_from_data (graph_self True) duplicated_edges = (Inr g, self') \<and>
     g_adj g 0 1 = Some (features_dim (Vec [7]) 1) \<and>
     g_adj g 1 0 = Some (features_dim (Vec [7]) 1) \<and>
     g_adj g 0 0 = None \<and> g_adj g 1 1 = None"
proof -
  obtain g s where h: "generate_graph_from_data (graph_self True) duplicated_edges = (Inr g, s)"
    using edge_entries_dup by (simp add: generate_graph_from_data_def)
  from edges_collapse_last_payload_wins [OF h] edge_entries_dup
  have "\<forall>u v. g_adj g u v =
        (if \<exists>e \<in> set [Edge3 0 1 (features_dim (Vec [5]) 1), Edge3 1 0 (features_dim (Vec [5]) 1),
           Edge3 0 1 (features_dim (Vec [7]) 1), Edge3 1 0 (features_dim (Vec [7]) 1)]. joins e u v
         then Some (entry_payload (last (filter (\<lambda>e. joins e u v)
           [Edge3 0 1 (features_dim (Vec [5]) 1), Edge3 1 0 (features_dim (Vec [5]) 1),
           Edge3 0 1 (features_dim (Vec [7]) 1), Edge3 1 0 (features_dim (Vec [7]) 1)])))
         else None)"
    by auto
  then have "g_adj g 0 1 = Some (features_dim (Vec [7]) 1) \<and>
     g_adj g 1 0 = Some (features_dim (Vec [7]) 1) \<and>
     g_adj g 0 0 = None \<and> g_adj g 1 1 = None"
    by (simp add: joins_def)
  with h show ?thesis by blast
qed



end
